theory Spec2Isabelle
  imports Complex_Main "HOL-Library.Sublist"
begin

section \<open>Values, errors and the objects of the chat SDK\<close>

text \<open>
  The module \<^verbatim>\<open>discord_slash/context.py\<close> defines one class, \<^verbatim>\<open>SlashContext\<close>, with the
  constructor \<^verbatim>\<open>__init__\<close> and the coroutines \<^verbatim>\<open>respond\<close>, \<^verbatim>\<open>send\<close> and \<^verbatim>\<open>send_hidden\<close>
  (\<^verbatim>\<open>_legacy_send\<close> is called by none of them and is left out). A coroutine is modelled
  as it runs when it is awaited, one step after the other. The inbound payload and the
  outbound bodies are JSON values; a Python dict is an association list in insertion
  order, read with \<open>map_of\<close>.
\<close>

datatype json =
    JNull
  | JBool bool
  | JInt int
  | JStr string
  | JList "json list"
  | JObj "(string \<times> json) list"

text \<open>
  Exceptions are values. \<open>IncorrectFormat\<close> is the one the class raises itself, with its
  message (the class \<^verbatim>\<open>error.IncorrectFormat\<close> is declared outside the sources); the
  others come from subscripting the payload and from \<^verbatim>\<open>int(...)\<close>.
\<close>

datatype py_error =
    IncorrectFormat string
  | KeyError string
  | TypeError
  | ValueError

definition ebind :: "py_error + 'a \<Rightarrow> ('a \<Rightarrow> py_error + 'b) \<Rightarrow> py_error + 'b" where
  "ebind r f = (case r of Inl e \<Rightarrow> Inl e | Inr v \<Rightarrow> f v)"

text \<open>\<^verbatim>\<open>x[k]\<close> for a string key: only a dict can be subscripted by one, a missing key raises.\<close>

fun getitem :: "json \<Rightarrow> string \<Rightarrow> py_error + json" where
  "getitem (JObj kvs) k = (case map_of kvs k of Some v \<Rightarrow> Inr v | None \<Rightarrow> Inl (KeyError k))"
| "getitem _ k = Inl TypeError"

text \<open>
  The two Python builtins the class applies to payload values, \<^verbatim>\<open>int(x)\<close> and the
  formatting of a value inside an f-string, are parameters of the model: nothing proved
  below depends on which strings \<^verbatim>\<open>int\<close> accepts or on how a value is printed.
\<close>

record builtins =
  py_int :: "json \<Rightarrow> py_error + int"
  py_format :: "json \<Rightarrow> string"

text \<open>
  Objects of the SDK, reduced to what the class reads of them. A member and a channel
  have an \<^verbatim>\<open>id\<close>; a channel is a \<^verbatim>\<open>TextChannel\<close> or some other channel class; a guild
  finds its members and channels by id; the client finds its guilds by id and has an
  optional default \<^verbatim>\<open>allowed_mentions\<close>. None of these classes defines \<^verbatim>\<open>__bool__\<close> or
  \<^verbatim>\<open>__len__\<close>, so such an object is always true in a condition.
\<close>

datatype member = Member (member_id: int)

datatype channel = TextChannel (channel_id: int) | OtherChannel (channel_id: int)

fun is_text_channel :: "channel \<Rightarrow> bool" where
  "is_text_channel (TextChannel _) = True"
| "is_text_channel (OtherChannel _) = False"

record guild_obj =
  guild_id :: int
  members :: "(int \<times> member) list"
  channels :: "(int \<times> channel) list"

definition get_member :: "guild_obj \<Rightarrow> int \<Rightarrow> member option" where
  "get_member g i = map_of (members g) i"

definition get_channel :: "guild_obj \<Rightarrow> int \<Rightarrow> channel option" where
  "get_channel g i = map_of (channels g) i"

datatype allowed_mentions_obj = AllowedMentions (am_to_dict: json)

record client =
  guilds :: "(int \<times> guild_obj) list"
  bot_allowed_mentions :: "allowed_mentions_obj option"
  connection :: nat

definition get_guild :: "client \<Rightarrow> int \<Rightarrow> guild_obj option" where
  "get_guild c i = map_of (guilds c) i"

text \<open>
  An \<^verbatim>\<open>Embed\<close> is read in two ways: as a condition (\<^verbatim>\<open>if embed:\<close>) and through
  \<^verbatim>\<open>to_dict()\<close>. The SDK's \<^verbatim>\<open>Embed\<close> defines its own truth value: an embed with no field
  set, \<^verbatim>\<open>Embed()\<close>, is false. A \<^verbatim>\<open>File\<close> is opaque and always true.
\<close>

datatype embed_obj = Embed (embed_bool: bool) (to_dict: json)

datatype file_obj = File string

text \<open>
  The \<^verbatim>\<open>embeds\<close> argument is declared a list, and the code tests
  \<^verbatim>\<open>isinstance(embeds, list)\<close>: a value that is not a list is kept with its truth value,
  the only thing the code reads of it (the empty tuple \<^verbatim>\<open>()\<close> is \<open>NotAList False\<close>).
\<close>

datatype embeds_val = EmbedList "embed_obj list" | NotAList bool

fun embeds_bool :: "embeds_val \<Rightarrow> bool" where
  "embeds_bool (EmbedList es) = (es \<noteq> [])"
| "embeds_bool (NotAList b) = b"

text \<open>
  A message of the gateway, as the check of \<^verbatim>\<open>respond\<close> reads it. Its \<^verbatim>\<open>type\<close> is a member
  of the SDK's enumeration \<^verbatim>\<open>MessageType\<close>, kept here with its value; a member is not an
  \<^verbatim>\<open>int\<close>, and Python's \<^verbatim>\<open>member == 20\<close> is false whatever the value of the member. A plain
  \<^verbatim>\<open>int\<close>, which the SDK never stores there, is the other case of \<^verbatim>\<open>==\<close>.
\<close>

datatype type_val = MessageType (type_value: int) | PlainInt int

fun eq_int :: "type_val \<Rightarrow> int \<Rightarrow> bool" where
  "eq_int (MessageType v) n = False"
| "eq_int (PlainInt m) n = (m = n)"

record message_obj =
  msg_author :: member
  msg_channel :: channel
  msg_type :: type_val
  msg_content :: string

section \<open>The context and the world around it\<close>

text \<open>\<^verbatim>\<open>typing.Union[X, int]\<close>: the resolved object, or the integer id.\<close>

datatype 'a or_id = Obj 'a | IntId int

text \<open>
  The attributes of a \<^verbatim>\<open>SlashContext\<close>. \<^verbatim>\<open>self.bot\<close> is the field \<open>bot_client\<close> (the name
  \<open>bot\<close> is taken in HOL); \<^verbatim>\<open>self._http\<close> and \<^verbatim>\<open>self.logger\<close> refer to the HTTP client
  and the logger of the world below.
\<close>

record slash_context =
  token :: json
  message :: "message_obj option"
  name :: json
  command :: json
  invoked_with :: json
  subcommand_name :: json
  invoked_subcommand :: json
  subcommand_passed :: json
  subcommand_group :: json
  invoked_subcommand_group :: json
  subcommand_group_passed :: json
  interaction_id :: json
  command_id :: json
  bot_client :: client
  sent :: bool
  guild :: "guild_obj or_id"
  author :: "member or_id"
  channel :: "channel or_id"

text \<open>
  One call of \<^verbatim>\<open>_http.post(_resp, wait, interaction_id, token, initial=False, files=None)\<close>.
\<close>

record request =
  body :: json
  req_wait :: bool
  req_interaction_id :: json
  req_token :: json
  initial :: bool
  req_files :: "file_obj list option"

text \<open>
  The value \<^verbatim>\<open>send\<close> returns on its normal path, \<^verbatim>\<open>model.SlashMessage(...)\<close>, as the
  arguments of its constructor (the class is declared outside the sources): the state of
  the client, the response, the channel (the \<^verbatim>\<open>TextChannel\<close>, or an \<^verbatim>\<open>Object\<close> with an
  integer id) and the token.
\<close>

datatype channel_arg = ChannelObj channel | ObjectOfId int

record slash_message =
  sm_state :: nat
  sm_data :: json
  sm_channel :: channel_arg
  sm_interaction_token :: json

text \<open>
  The HTTP client \<^verbatim>\<open>http.SlashCommandRequest\<close> and the logger are handed to the
  constructor and are not part of the sources; the class only calls \<^verbatim>\<open>_http.post\<close> and
  \<^verbatim>\<open>logger.warning\<close>. They are the world around the context: it records, in order, the
  requests handed to \<^verbatim>\<open>_http.post\<close>, the warnings handed to \<^verbatim>\<open>logger.warning\<close>, the
  calls of \<^verbatim>\<open>bot.wait_for\<close> (event and timeout in seconds) and the background tasks that
  delete a message after a delay (a float in the source, a real number here; the code
  only tests it in a condition). What the outside answers is a parameter, given with
  the world: the response to each request, and for each successive \<^verbatim>\<open>wait_for\<close> the
  messages that the gateway dispatches before its timeout expires. A request that the
  HTTP client fails to deliver is outside the model: \<open>post\<close> records the request and
  returns the response.
\<close>

record world =
  posts :: "request list"
  http_response :: "request \<Rightarrow> json"
  warnings :: "string list"
  waits :: "(string \<times> nat) list"
  windows :: "message_obj list list"
  tasks :: "(slash_message \<times> real) list"

definition post :: "request \<Rightarrow> world \<Rightarrow> json \<times> world" where
  "post r w = (http_response w r, w\<lparr>posts := posts w @ [r]\<rparr>)"

definition warning :: "string \<Rightarrow> world \<Rightarrow> world" where
  "warning s w = w\<lparr>warnings := warnings w @ [s]\<rparr>"

text \<open>
  \<^verbatim>\<open>bot.wait_for(event, timeout=t, check=c)\<close> returns the first dispatched message that
  satisfies the check, and raises \<^verbatim>\<open>asyncio.TimeoutError\<close> (here \<open>None\<close>) when the
  timeout expires first.
\<close>

definition wait_for ::
  "string \<Rightarrow> nat \<Rightarrow> (message_obj \<Rightarrow> bool) \<Rightarrow> world \<Rightarrow> message_obj option \<times> world" where
  "wait_for event timeout chk w =
     (let w' = w\<lparr>waits := waits w @ [(event, timeout)]\<rparr> in
      case windows w of
        [] \<Rightarrow> (None, w')
      | ms # rest \<Rightarrow> (find chk ms, w'\<lparr>windows := rest\<rparr>))"

section \<open>The constructor\<close>

definition user_id_of :: "builtins \<Rightarrow> json \<Rightarrow> py_error + int" where
  "user_id_of py js =
     ebind (getitem js ''member'') (\<lambda>m.
     ebind (getitem m ''user'') (\<lambda>u.
     ebind (getitem u ''id'') (py_int py)))"

definition channel_id_of :: "builtins \<Rightarrow> json \<Rightarrow> py_error + int" where
  "channel_id_of py js = ebind (getitem js ''channel_id'') (py_int py)"

definition guild_id_of :: "builtins \<Rightarrow> json \<Rightarrow> py_error + int" where
  "guild_id_of py js = ebind (getitem js ''guild_id'') (py_int py)"

definition init :: "builtins \<Rightarrow> json \<Rightarrow> client \<Rightarrow> py_error + slash_context" where
  "init py js discord =
     ebind (getitem js ''token'') (\<lambda>tok.
     ebind (ebind (getitem js ''data'') (\<lambda>d. getitem d ''name'')) (\<lambda>nm.
     ebind (getitem js ''id'') (\<lambda>iid.
     ebind (ebind (getitem js ''data'') (\<lambda>d. getitem d ''id'')) (\<lambda>cid.
     ebind (guild_id_of py js) (\<lambda>gid.
     let g = get_guild discord gid in
     ebind (case g of
              Some gd \<Rightarrow> ebind (user_id_of py js) (\<lambda>uid. Inr (get_member gd uid))
            | None \<Rightarrow> Inr None) (\<lambda>a.
     ebind (case g of
              Some gd \<Rightarrow> ebind (channel_id_of py js) (\<lambda>ch. Inr (get_channel gd ch))
            | None \<Rightarrow> Inr None) (\<lambda>c.
     ebind (case a of
              Some m \<Rightarrow> Inr (Obj m)
            | None \<Rightarrow> ebind (user_id_of py js) (\<lambda>uid. Inr (IntId uid))) (\<lambda>a'.
     ebind (case c of
              Some ch \<Rightarrow> Inr (Obj ch)
            | None \<Rightarrow> ebind (channel_id_of py js) (\<lambda>ch. Inr (IntId ch))) (\<lambda>c'.
     ebind (case g of
              Some gd \<Rightarrow> Inr (Obj gd)
            | None \<Rightarrow> ebind (guild_id_of py js) (\<lambda>gid'. Inr (IntId gid'))) (\<lambda>g'.
     Inr \<lparr> token = tok, message = None,
           name = nm, command = nm, invoked_with = nm,
           subcommand_name = JNull, invoked_subcommand = JNull, subcommand_passed = JNull,
           subcommand_group = JNull, invoked_subcommand_group = JNull,
           subcommand_group_passed = JNull,
           interaction_id = iid, command_id = cid, bot_client = discord, sent = False,
           guild = g', author = a', channel = c' \<rparr>))))))))))"

section \<open>respond\<close>

text \<open>
  The check that \<^verbatim>\<open>respond\<close> hands to \<^verbatim>\<open>wait_for\<close>: the message is by the author of
  the command, in its channel, \<^verbatim>\<open>message.type == 20\<close>, and its content starts with
  \<^verbatim>\<open></name:command_id>\<close>.
\<close>

definition check :: "builtins \<Rightarrow> slash_context \<Rightarrow> message_obj \<Rightarrow> bool" where
  "check py ctx m =
     (let user_id = (case author ctx of IntId i \<Rightarrow> i | Obj a \<Rightarrow> member_id a);
          is_author = (member_id (msg_author m) = user_id);
          chan_id = (case channel ctx of IntId i \<Rightarrow> i | Obj c \<Rightarrow> channel_id c);
          is_channel = (chan_id = channel_id (msg_channel m));
          is_user_input = eq_int (msg_type m) 20;
          is_correct_command =
            prefix (''</'' @ py_format py (name ctx) @ '':'' @ py_format py (command_id ctx) @ ''>'')
                   (msg_content m)
      in is_author \<and> is_channel \<and> is_user_input \<and> is_correct_command)"

text \<open>
  \<^verbatim>\<open>respond\<close> creates the task that posts the acknowledgement, sets \<^verbatim>\<open>sent\<close>, waits for
  the user's message unless \<^verbatim>\<open>eat\<close>, and awaits the task before it returns. The task has
  run when \<^verbatim>\<open>respond\<close> returns, so the model posts where the task is created.
\<close>

definition ack_request :: "slash_context \<Rightarrow> bool \<Rightarrow> request" where
  "ack_request ctx eat =
     \<lparr> body = JObj [(''type'', JInt (if eat then 2 else 5))], req_wait = False,
       req_interaction_id = interaction_id ctx, req_token = token ctx,
       initial = True, req_files = None \<rparr>"

definition respond :: "builtins \<Rightarrow> slash_context \<Rightarrow> world \<Rightarrow> bool \<Rightarrow> slash_context \<times> world" where
  "respond py ctx w eat =
     (let (resp, w1) = post (ack_request ctx eat) w;
          ctx1 = ctx\<lparr>sent := True\<rparr>
      in if \<not> eat then
           (case wait_for ''message'' 3 (check py ctx1) w1 of
              (Some m, w2) \<Rightarrow> (ctx1\<lparr>message := Some m\<rparr>, w2)
            | (None, w2) \<Rightarrow> (ctx1, w2))
         else (ctx1, w1))"

section \<open>send and send\_hidden\<close>

record send_args =
  content :: json
  wait :: bool
  embed_arg :: "embed_obj option"
  embeds :: "embeds_val option"
  tts :: bool
  "file" :: "file_obj option"
  files :: "file_obj list option"
  allowed_mentions :: "allowed_mentions_obj option"
  hidden :: bool
  delete_after :: "real option"

text \<open>
  The record above holds the arguments of \<^verbatim>\<open>send\<close>; the argument \<^verbatim>\<open>embed\<close> is the field
  \<open>embed_arg\<close> (the name \<open>embed\<close> is taken in HOL). Below are the defaults of the keyword
  arguments.
\<close>

definition default_args :: send_args where
  "default_args =
     \<lparr> content = JStr [], wait = False, embed_arg = None, embeds = None, tts = False,
       file = None, files = None, allowed_mentions = None, hidden = False,
       delete_after = None \<rparr>"

text \<open>Truth values of the optional arguments, as \<^verbatim>\<open>if x:\<close> reads them.\<close>

definition embed_given :: "embed_obj option \<Rightarrow> bool" where
  "embed_given e = (case e of None \<Rightarrow> False | Some x \<Rightarrow> embed_bool x)"

definition embeds_given :: "embeds_val option \<Rightarrow> bool" where
  "embeds_given es = (case es of None \<Rightarrow> False | Some v \<Rightarrow> embeds_bool v)"

definition file_given :: "file_obj option \<Rightarrow> bool" where
  "file_given f = (f \<noteq> None)"

definition files_given :: "file_obj list option \<Rightarrow> bool" where
  "files_given fs = (case fs of None \<Rightarrow> False | Some xs \<Rightarrow> xs \<noteq> [])"

text \<open>\<^verbatim>\<open>isinstance(content, int) and 2 <= content <= 5\<close>; \<^verbatim>\<open>True\<close> and \<^verbatim>\<open>False\<close> are 1 and 0.\<close>

fun legacy_content :: "json \<Rightarrow> bool" where
  "legacy_content (JInt n) = (2 \<le> n \<and> n \<le> 5)"
| "legacy_content _ = False"

definition mentions_dict :: "slash_context \<Rightarrow> allowed_mentions_obj option \<Rightarrow> json" where
  "mentions_dict ctx am =
     (case am of
        Some a \<Rightarrow> am_to_dict a
      | None \<Rightarrow> (case bot_allowed_mentions (bot_client ctx) of
                   Some d \<Rightarrow> am_to_dict d
                 | None \<Rightarrow> JObj []))"

text \<open>
  \<^verbatim>\<open>[x.to_dict() for x in embeds] if embeds else []\<close>. In \<^verbatim>\<open>send\<close> a true \<^verbatim>\<open>embeds\<close> that
  reaches this line is a list: a true value that is not a list has raised before.
\<close>

definition embeds_json :: "embeds_val option \<Rightarrow> json" where
  "embeds_json es =
     (if embeds_given es
      then (case es of Some (EmbedList xs) \<Rightarrow> JList (map to_dict xs) | _ \<Rightarrow> JList [])
      else JList [])"

definition send_base ::
  "slash_context \<Rightarrow> json \<Rightarrow> bool \<Rightarrow> embeds_val option \<Rightarrow> allowed_mentions_obj option \<Rightarrow> json" where
  "send_base ctx c t es am =
     JObj [(''content'', c), (''tts'', JBool t), (''embeds'', embeds_json es),
           (''allowed_mentions'', mentions_dict ctx am)]"

definition hidden_request :: "slash_context \<Rightarrow> json \<Rightarrow> request" where
  "hidden_request ctx c =
     \<lparr> body = JObj [(''content'', c), (''flags'', JInt 64)], req_wait = False,
       req_interaction_id = interaction_id ctx, req_token = token ctx,
       initial = False, req_files = None \<rparr>"

definition send_hidden :: "slash_context \<Rightarrow> world \<Rightarrow> json \<Rightarrow> json \<times> world" where
  "send_hidden ctx w c = post (hidden_request ctx c) w"

datatype send_result = Message slash_message | Response json

definition followup_request :: "slash_context \<Rightarrow> send_args \<Rightarrow> embeds_val option \<Rightarrow> file_obj list option \<Rightarrow> request" where
  "followup_request ctx a es fs =
     \<lparr> body = send_base ctx (content a) (tts a) es (allowed_mentions a), req_wait = wait a,
       req_interaction_id = interaction_id ctx, req_token = token ctx,
       initial = False, req_files = fs \<rparr>"

text \<open>
  \<^verbatim>\<open>send\<close> runs in four steps, each a definition here, in the order of the source: the
  check of the content, \<^verbatim>\<open>if not self.sent: ...\<close> (\<open>ensure_responded\<close>), the validation
  of the arguments when the message is not hidden (\<open>validate\<close>), and the post of the
  body with the construction of the result (\<open>deliver\<close>).
\<close>

definition ensure_responded :: "builtins \<Rightarrow> slash_context \<Rightarrow> world \<Rightarrow> slash_context \<times> world" where
  "ensure_responded py ctx w =
     (if \<not> sent ctx then
        respond py ctx
          (warning (''At command `'' @ py_format py (name ctx) @
                    ''`: It is highly recommended to call `.respond()` first!'') w)
          False
      else (ctx, w))"

text \<open>\<^verbatim>\<open>if embed: embeds = [embed]\<close> and \<^verbatim>\<open>if file: files = [file]\<close>.\<close>

definition chosen_embeds :: "send_args \<Rightarrow> embeds_val option" where
  "chosen_embeds a =
     (case embed_arg a of
        Some e \<Rightarrow> (if embed_bool e then Some (EmbedList [e]) else embeds a)
      | None \<Rightarrow> embeds a)"

definition chosen_files :: "send_args \<Rightarrow> file_obj list option" where
  "chosen_files a = (case file a of Some f \<Rightarrow> Some [f] | None \<Rightarrow> files a)"

text \<open>\<^verbatim>\<open>if embeds:\<close> with its two checks; \<open>None\<close> when neither raises.\<close>

definition check_embeds :: "embeds_val option \<Rightarrow> py_error option" where
  "check_embeds es =
     (case es of
        None \<Rightarrow> None
      | Some v \<Rightarrow>
          (if embeds_bool v then
             (case v of
                NotAList _ \<Rightarrow> Some (IncorrectFormat ''Provide a list of embeds.'')
              | EmbedList xs \<Rightarrow>
                  (if length xs > 10
                   then Some (IncorrectFormat ''Do not provide more than 10 embeds.'')
                   else None))
           else None))"

definition validate :: "send_args \<Rightarrow> py_error + (embeds_val option \<times> file_obj list option)" where
  "validate a =
     (if embed_given (embed_arg a) \<and> embeds_given (embeds a) then
        Inl (IncorrectFormat ''You can't use both `embed` and `embeds`!'')
      else
        let es = chosen_embeds a in
        case check_embeds es of
          Some e \<Rightarrow> Inl e
        | None \<Rightarrow>
            (if file_given (file a) \<and> files_given (files a) then
               Inl (IncorrectFormat ''You can't use both `file` and `files`!'')
             else Inr (es, chosen_files a)))"

text \<open>
  \<^verbatim>\<open>self.channel if isinstance(self.channel, disnake.TextChannel) else
  disnake.Object(id=self.channel)\<close>. The SDK's \<^verbatim>\<open>Object\<close> applies \<^verbatim>\<open>int\<close> to its \<^verbatim>\<open>id\<close>: an
  integer id gives an \<^verbatim>\<open>Object\<close>, and a resolved channel that is not a \<^verbatim>\<open>TextChannel\<close>
  raises \<open>TypeError\<close>.
\<close>

fun channel_argument :: "channel or_id \<Rightarrow> py_error + channel_arg" where
  "channel_argument (Obj c) = (if is_text_channel c then Inr (ChannelObj c) else Inl TypeError)"
| "channel_argument (IntId i) = Inr (ObjectOfId i)"

text \<open>
  The post of the followup body, then the construction of the result; when that
  construction raises, the body has been posted already.
\<close>

definition deliver ::
  "slash_context \<Rightarrow> world \<Rightarrow> send_args \<Rightarrow> embeds_val option \<Rightarrow> file_obj list option
     \<Rightarrow> (py_error + slash_message) \<times> world" where
  "deliver ctx w a es fs =
     (let (resp, w1) = post (followup_request ctx a es fs) w in
      case channel_argument (channel ctx) of
        Inl e \<Rightarrow> (Inl e, w1)
      | Inr ch \<Rightarrow>
          (let smsg = \<lparr> sm_state = connection (bot_client ctx), sm_data = resp,
                        sm_channel = ch, sm_interaction_token = token ctx \<rparr>;
               w2 = (case delete_after a of
                       Some d \<Rightarrow> (if d \<noteq> 0 then w1\<lparr>tasks := tasks w1 @ [(smsg, d)]\<rparr> else w1)
                     | None \<Rightarrow> w1)
           in (Inr smsg, w2)))"

definition send ::
  "builtins \<Rightarrow> slash_context \<Rightarrow> world \<Rightarrow> send_args
     \<Rightarrow> (py_error + send_result) \<times> slash_context \<times> world" where
  "send py ctx w a =
     (if legacy_content (content a) then
        (Inl (IncorrectFormat
           ''`.send` Method is rewritten at Release 1.0.9. Please read the docs and fix all the usages.''),
         ctx, w)
      else
        let (ctx1, w1) = ensure_responded py ctx w in
        if hidden a then
          (let w2 = (if embeds_given (embeds a) \<or> embed_given (embed_arg a)
                     then warning ''Embed is not supported for `hidden`!'' w1 else w1);
               (resp, w3) = send_hidden ctx1 w2 (content a)
           in (Inr (Response resp), ctx1, w3))
        else
          (case validate a of
             Inl e \<Rightarrow> (Inl e, ctx1, w1)
           | Inr (es, fs) \<Rightarrow>
               (case deliver ctx1 w1 a es fs of
                  (Inl e, w2) \<Rightarrow> (Inl e, ctx1, w2)
                | (Inr smsg, w2) \<Rightarrow> (Inr (Message smsg), ctx1, w2))))"

section \<open>The embeds of a call\<close>

text \<open>
  The embeds that a call of \<^verbatim>\<open>send\<close> gives, in the words of the description of the body:
  the single \<^verbatim>\<open>embed\<close> when it is true in a condition, and the elements of \<^verbatim>\<open>embeds\<close>
  when it is a list.
\<close>

definition given_embeds :: "send_args \<Rightarrow> embed_obj list" where
  "given_embeds a =
     (case embed_arg a of Some e \<Rightarrow> (if embed_bool e then [e] else []) | None \<Rightarrow> [])
     @ (case embeds a of Some (EmbedList xs) \<Rightarrow> xs | _ \<Rightarrow> [])"

section \<open>A concrete interaction\<close>

text \<open>
  A payload, a client and a world on which the definitions are evaluated. \<open>dec_int\<close> stands
  for \<^verbatim>\<open>int\<close> on integers and on strings of decimal digits, \<open>str_format\<close> for the
  formatting of a string.
\<close>

definition digit_val :: "char \<Rightarrow> nat option" where
  "digit_val c = map_of (zip ''0123456789'' [0, 1, 2, 3, 4, 5, 6, 7, 8, 9]) c"

fun dec_value :: "nat \<Rightarrow> string \<Rightarrow> nat option" where
  "dec_value acc [] = Some acc"
| "dec_value acc (c # cs) =
     (case digit_val c of None \<Rightarrow> None | Some d \<Rightarrow> dec_value (10 * acc + d) cs)"

fun dec_int :: "json \<Rightarrow> py_error + int" where
  "dec_int (JInt n) = Inr n"
| "dec_int (JBool b) = Inr (if b then 1 else 0)"
| "dec_int (JStr s) =
     (if s = [] then Inl ValueError
      else case dec_value 0 s of None \<Rightarrow> Inl ValueError | Some n \<Rightarrow> Inr (int n))"
| "dec_int _ = Inl TypeError"

fun str_format :: "json \<Rightarrow> string" where
  "str_format (JStr s) = s"
| "str_format _ = ''?''"

definition sample_py :: builtins where
  "sample_py = \<lparr> py_int = dec_int, py_format = str_format \<rparr>"

definition sample_payload :: json where
  "sample_payload =
     JObj [(''token'', JStr ''tok''), (''id'', JStr ''42''),
           (''data'', JObj [(''name'', JStr ''ping''), (''id'', JStr ''7'')]),
           (''guild_id'', JStr ''1''), (''channel_id'', JStr ''2''),
           (''member'', JObj [(''user'', JObj [(''id'', JStr ''3'')])])]"

text \<open>
  Two more payloads: one from a guild that the client does not know, one from the sample
  guild by a member and in a channel that the guild does not know.
\<close>

definition stranger_payload :: json where
  "stranger_payload =
     JObj [(''token'', JStr ''tok''), (''id'', JStr ''42''),
           (''data'', JObj [(''name'', JStr ''ping''), (''id'', JStr ''7'')]),
           (''guild_id'', JStr ''9''), (''channel_id'', JStr ''2''),
           (''member'', JObj [(''user'', JObj [(''id'', JStr ''3'')])])]"

definition visitor_payload :: json where
  "visitor_payload =
     JObj [(''token'', JStr ''tok''), (''id'', JStr ''42''),
           (''data'', JObj [(''name'', JStr ''ping''), (''id'', JStr ''7'')]),
           (''guild_id'', JStr ''1''), (''channel_id'', JStr ''8''),
           (''member'', JObj [(''user'', JObj [(''id'', JStr ''5'')])])]"

definition sample_guild :: guild_obj where
  "sample_guild =
     \<lparr> guild_id = 1, members = [(3, Member 3)], channels = [(2, TextChannel 2)] \<rparr>"

definition sample_client :: client where
  "sample_client =
     \<lparr> guilds = [(1, sample_guild)], bot_allowed_mentions = None, connection = 0 \<rparr>"

definition sample_context :: slash_context where
  "sample_context =
     \<lparr> token = JStr ''tok'', message = None,
       name = JStr ''ping'', command = JStr ''ping'', invoked_with = JStr ''ping'',
       subcommand_name = JNull, invoked_subcommand = JNull, subcommand_passed = JNull,
       subcommand_group = JNull, invoked_subcommand_group = JNull,
       subcommand_group_passed = JNull,
       interaction_id = JStr ''42'', command_id = JStr ''7'', bot_client = sample_client,
       sent = False, guild = Obj sample_guild, author = Obj (Member 3),
       channel = Obj (TextChannel 2) \<rparr>"

text \<open>The sample context in a channel of the guild that is not a \<^verbatim>\<open>TextChannel\<close>.\<close>

definition voice_context :: slash_context where
  "voice_context = sample_context\<lparr>channel := Obj (OtherChannel 2)\<rparr>"

definition sample_message :: message_obj where
  "sample_message =
     \<lparr> msg_author = Member 3, msg_channel = TextChannel 2, msg_type = MessageType 20,
       msg_content = ''</ping:7> hello'' \<rparr>"

definition sample_world :: world where
  "sample_world =
     \<lparr> posts = [], http_response = (\<lambda>r. JObj [(''id'', JStr ''100'')]), warnings = [],
       waits = [], windows = [sample_message] # [], tasks = [] \<rparr>"

definition rich_embed :: embed_obj where
  "rich_embed = Embed True (JObj [(''title'', JStr ''t''), (''type'', JStr ''rich'')])"

definition empty_embed :: embed_obj where
  "empty_embed = Embed False (JObj [(''type'', JStr ''rich'')])"

section \<open>How respond changes the context and the world\<close>

lemma sample_init: "init sample_py sample_payload sample_client = Inr sample_context"
  by (simp add: init_def ebind_def guild_id_of_def user_id_of_def channel_id_of_def
        sample_py_def sample_payload_def sample_client_def sample_guild_def
        sample_context_def get_guild_def get_member_def get_channel_def digit_val_def)

lemma check_sent: "check py (ctx\<lparr>sent := b\<rparr>) = check py ctx"
  by (rule ext) (simp add: check_def)

lemma respond_ctx:
  "fst (respond py ctx w eat) =
     ctx\<lparr>sent := True,
         message := (if eat then message ctx
                     else case windows w of
                            [] \<Rightarrow> message ctx
                          | ms # rest \<Rightarrow> (case find (check py ctx) ms of
                                           Some m \<Rightarrow> Some m | None \<Rightarrow> message ctx))\<rparr>"
  by (simp add: respond_def post_def wait_for_def check_sent Let_def
           split: prod.splits option.splits list.splits)

lemma respond_world:
  "snd (respond py ctx w eat) =
     w\<lparr>posts := posts w @ [ack_request ctx eat],
       waits := (if eat then waits w else waits w @ [(''message'', 3)]),
       windows := (if eat then windows w else tl (windows w))\<rparr>"
  by (simp add: respond_def post_def wait_for_def Let_def
           split: prod.splits option.splits list.splits)

lemma ensure_responded_ctx:
  "fst (ensure_responded py ctx w) = (if sent ctx then ctx else fst (respond py ctx w False))"
  by (simp add: ensure_responded_def respond_ctx warning_def)

lemma ensure_responded_posts:
  "posts (snd (ensure_responded py ctx w)) =
     posts w @ (if sent ctx then [] else [ack_request ctx False])"
  by (simp add: ensure_responded_def respond_world warning_def)

lemma ensure_responded_sent: "sent (fst (ensure_responded py ctx w))"
  by (simp add: ensure_responded_ctx respond_ctx)

lemma ensure_responded_ids:
  "interaction_id (fst (ensure_responded py ctx w)) = interaction_id ctx"
  "token (fst (ensure_responded py ctx w)) = token ctx"
  "bot_client (fst (ensure_responded py ctx w)) = bot_client ctx"
  "channel (fst (ensure_responded py ctx w)) = channel ctx"
  by (simp_all add: ensure_responded_ctx respond_ctx)

section \<open>How send changes the context and the world\<close>

lemma followup_request_ensure:
  "followup_request (fst (ensure_responded py ctx w)) a es fs = followup_request ctx a es fs"
  by (simp add: followup_request_def send_base_def mentions_dict_def ensure_responded_ids
           cong: option.case_cong)

lemma hidden_request_ensure:
  "hidden_request (fst (ensure_responded py ctx w)) c = hidden_request ctx c"
  by (simp add: hidden_request_def ensure_responded_ids)

lemma deliver_posts: "posts (snd (deliver ctx w a es fs)) = posts w @ [followup_request ctx a es fs]"
  by (simp add: deliver_def post_def Let_def split: option.splits sum.splits)

lemma deliver_raises:
  "fst (deliver ctx w a es fs) = Inl e \<longleftrightarrow> channel_argument (channel ctx) = Inl e"
  by (simp add: deliver_def post_def Let_def split: sum.splits)

lemma deliver_error_kind: "fst (deliver ctx w a es fs) = Inl e \<Longrightarrow> e = TypeError"
  by (cases "channel ctx") (auto simp: deliver_raises split: if_splits)

lemma send_ctx:
  "fst (snd (send py ctx w a)) =
     (if legacy_content (content a) then ctx else fst (ensure_responded py ctx w))"
  by (simp add: send_def case_prod_beta Let_def split: sum.splits)

lemma send_posts:
  "posts (snd (snd (send py ctx w a))) =
     posts w @
     (if legacy_content (content a) then []
      else (if sent ctx then [] else [ack_request ctx False]) @
           (if hidden a then [hidden_request ctx (content a)]
            else case validate a of
                   Inl e \<Rightarrow> []
                 | Inr (es, fs) \<Rightarrow> [followup_request ctx a es fs]))"
proof -
  have d: "\<And>es fs. posts (snd (deliver (fst (ensure_responded py ctx w))
                                   (snd (ensure_responded py ctx w)) a es fs)) =
                     posts w @ (if sent ctx then [] else [ack_request ctx False])
                     @ [followup_request ctx a es fs]"
    by (simp add: deliver_posts ensure_responded_posts followup_request_ensure)
  show ?thesis
    using d
    by (simp add: send_def case_prod_beta Let_def send_hidden_def post_def warning_def
          ensure_responded_posts hidden_request_ensure split: sum.splits)
qed

lemma send_raises:
  "fst (send py ctx w a) = Inl e \<longleftrightarrow>
     (if legacy_content (content a)
      then e = IncorrectFormat
        ''`.send` Method is rewritten at Release 1.0.9. Please read the docs and fix all the usages.''
      else \<not> hidden a \<and>
           (validate a = Inl e
            \<or> ((\<exists>r. validate a = Inr r) \<and> channel_argument (channel ctx) = Inl e)))"
proof -
  have d: "\<And>es fs. fst (deliver (fst (ensure_responded py ctx w))
                            (snd (ensure_responded py ctx w)) a es fs) = Inl e
                     \<longleftrightarrow> channel_argument (channel ctx) = Inl e"
    by (simp add: deliver_raises ensure_responded_ids)
  show ?thesis
    using d
    by (auto simp: send_def case_prod_beta Let_def split: sum.splits)
qed


lemma validate_conflict:
  assumes "(embed_given (embed_arg a) \<and> embeds_given (embeds a))
           \<or> (file_given (file a) \<and> files_given (files a))"
  shows "\<exists>msg. validate a = Inl (IncorrectFormat msg)"
  using assms
  by (auto simp: validate_def check_embeds_def Let_def split: option.splits embeds_val.splits)

lemma validate_embeds_json:
  assumes "validate a = Inr (es, fs)"
  shows "embeds_json es = JList (map to_dict (given_embeds a))"
  using assms
  by (cases a)
     (auto simp: validate_def check_embeds_def chosen_embeds_def embeds_json_def
        given_embeds_def embed_given_def embeds_given_def Let_def
        split: option.splits embeds_val.splits if_splits)


lemma validate_embeds:
  assumes "embeds a = Some v"
  shows "(\<exists>r. validate a = Inr r) \<longleftrightarrow>
           \<not> (embeds_bool v \<and> (case v of NotAList _ \<Rightarrow> True | EmbedList xs \<Rightarrow> length xs > 10))
         \<and> \<not> (embed_given (embed_arg a) \<and> embeds_bool v)
         \<and> \<not> (file_given (file a) \<and> files_given (files a))"
  using assms
  by (cases a)
     (auto simp: validate_def check_embeds_def chosen_embeds_def embed_given_def
        embeds_given_def Let_def split: option.splits embeds_val.splits if_splits)

lemma validate_error_kind: "validate a = Inl e \<Longrightarrow> \<exists>msg. e = IncorrectFormat msg"
  by (auto simp: validate_def check_embeds_def Let_def
        split: option.splits embeds_val.splits if_splits)

lemma channel_argument_error: "channel_argument c = Inl e \<Longrightarrow> e = TypeError"
  by (cases c) (auto split: if_splits)

lemma send_incorrect_format:
  assumes "\<not> hidden a" "\<not> legacy_content (content a)"
  shows "(\<exists>msg. fst (send py ctx w a) = Inl (IncorrectFormat msg)) \<longleftrightarrow> (\<forall>r. validate a \<noteq> Inr r)"
proof
  assume "\<exists>msg. fst (send py ctx w a) = Inl (IncorrectFormat msg)"
  then obtain msg where m: "fst (send py ctx w a) = Inl (IncorrectFormat msg)" by blast
  with assms have "validate a = Inl (IncorrectFormat msg)
      \<or> channel_argument (channel ctx) = Inl (IncorrectFormat msg)"
    by (auto simp: send_raises)
  with channel_argument_error [of "channel ctx" "IncorrectFormat msg"]
  have "validate a = Inl (IncorrectFormat msg)" by auto
  then show "\<forall>r. validate a \<noteq> Inr r" by simp
next
  assume n: "\<forall>r. validate a \<noteq> Inr r"
  then obtain e where e: "validate a = Inl e" by (cases "validate a") auto
  with validate_error_kind obtain msg where "e = IncorrectFormat msg" by blast
  with e assms show "\<exists>msg. fst (send py ctx w a) = Inl (IncorrectFormat msg)"
    by (auto simp: send_raises)
qed

lemma send_warnings_hidden:
  assumes "hidden a" "\<not> legacy_content (content a)"
  shows "warnings (snd (snd (send py ctx w a))) =
           warnings w
           @ (if sent ctx then []
              else [''At command `'' @ py_format py (name ctx) @
                    ''`: It is highly recommended to call `.respond()` first!''])
           @ (if embeds_given (embeds a) \<or> embed_given (embed_arg a)
              then [''Embed is not supported for `hidden`!''] else [])"
  using assms
  by (simp add: send_def case_prod_beta Let_def send_hidden_def post_def warning_def
        ensure_responded_def respond_world)

lemma deliver_embed_args:
  "deliver c w0 (a\<lparr>embed_arg := x, embeds := y\<rparr>) es fs = deliver c w0 a es fs"
  by (simp add: deliver_def followup_request_def Let_def split: prod.splits sum.splits)

lemma deliver_file_args:
  "deliver c w0 (a\<lparr>file := x, files := y\<rparr>) es fs = deliver c w0 a es fs"
  by (simp add: deliver_def followup_request_def Let_def split: prod.splits sum.splits)

lemma chosen_embeds_file_args:
  "chosen_embeds (a\<lparr>file := x, files := y\<rparr>) = chosen_embeds a"
  by (simp add: chosen_embeds_def split: option.splits)

lemma chosen_files_embed_args:
  "chosen_files (a\<lparr>embed_arg := x, embeds := y\<rparr>) = chosen_files a"
  by (simp add: chosen_files_def split: option.splits)

section \<open>Evaluating the definitions\<close>

lemmas sample_defs =
  sample_context_def sample_world_def sample_py_def sample_client_def sample_guild_def
  sample_message_def rich_embed_def empty_embed_def default_args_def voice_context_def

lemmas send_defs =
  send_def ensure_responded_def respond_def post_def warning_def wait_for_def check_def
  ack_request_def validate_def chosen_embeds_def chosen_files_def check_embeds_def
  deliver_def followup_request_def send_base_def embeds_json_def mentions_dict_def
  hidden_request_def send_hidden_def embed_given_def embeds_given_def file_given_def
  files_given_def Let_def

lemmas init_eval =
  guild_id_of_def user_id_of_def channel_id_of_def sample_py_def sample_payload_def
  stranger_payload_def visitor_payload_def sample_client_def sample_guild_def
  sample_context_def digit_val_def

text \<open>A member of \<^verbatim>\<open>MessageType\<close> never passes the check of \<^verbatim>\<open>respond\<close>.\<close>

lemma check_rejects_members: "msg_type m = MessageType v \<Longrightarrow> \<not> check py ctx m"
  by (simp add: check_def Let_def)

section \<open>The claims\<close>

text \<open>
  C1, as amended. In a call of \<^verbatim>\<open>send\<close> with \<^verbatim>\<open>hidden\<close> false in which \<^verbatim>\<open>embed\<close> and
  \<^verbatim>\<open>embeds\<close> are both true in a condition, or \<^verbatim>\<open>file\<close> and \<^verbatim>\<open>files\<close> are, \<^verbatim>\<open>send\<close>
  raises \<open>IncorrectFormat\<close>, and no followup body is posted: the only request the call
  can have posted is the acknowledgement of \<^verbatim>\<open>respond()\<close>, when \<open>sent\<close> was false and the
  content is not an integer from 2 to 5.
\<close>

theorem conflicting_arguments_raise:
  assumes "\<not> hidden a"
    and "(embed_given (embed_arg a) \<and> embeds_given (embeds a))
         \<or> (file_given (file a) \<and> files_given (files a))"
  shows "(\<exists>msg. fst (send py ctx w a) = Inl (IncorrectFormat msg))
       \<and> posts (snd (snd (send py ctx w a))) =
           posts w @
           (if sent ctx \<or> legacy_content (content a) then []
            else [\<lparr> body = JObj [(''type'', JInt 5)], req_wait = False,
                    req_interaction_id = interaction_id ctx, req_token = token ctx,
                    initial = True, req_files = None \<rparr>])"
proof -
  from validate_conflict [OF assms(2)] obtain msg where v: "validate a = Inl (IncorrectFormat msg)"
    by blast
  have "\<exists>msg. fst (send py ctx w a) = Inl (IncorrectFormat msg)"
    using assms(1) v by (cases "legacy_content (content a)") (auto simp: send_raises)
  moreover have "posts (snd (snd (send py ctx w a))) =
           posts w @
           (if sent ctx \<or> legacy_content (content a) then []
            else [\<lparr> body = JObj [(''type'', JInt 5)], req_wait = False,
                    req_interaction_id = interaction_id ctx, req_token = token ctx,
                    initial = True, req_files = None \<rparr>])"
    using assms(1) v by (simp add: send_posts ack_request_def)
  ultimately show ?thesis by blast
qed

text \<open>C1, the amended statement at a call with a file and a list of files.\<close>

theorem conflicting_arguments_raise_witness:
  "(\<exists>msg. fst (send sample_py sample_context sample_world
                  (default_args\<lparr>file := Some (File ''a.txt''), files := Some [File ''b.txt'']\<rparr>))
              = Inl (IncorrectFormat msg))
   \<and> posts (snd (snd (send sample_py sample_context sample_world
                  (default_args\<lparr>file := Some (File ''a.txt''), files := Some [File ''b.txt'']\<rparr>))))
       = [\<lparr> body = JObj [(''type'', JInt 5)], req_wait = False,
            req_interaction_id = JStr ''42'', req_token = JStr ''tok'',
            initial = True, req_files = None \<rparr>]"
proof -
  let ?a = "default_args\<lparr>file := Some (File ''a.txt''), files := Some [File ''b.txt'']\<rparr>"
  have h: "\<not> hidden ?a" by (simp add: default_args_def)
  have c: "(embed_given (embed_arg ?a) \<and> embeds_given (embeds ?a))
           \<or> (file_given (file ?a) \<and> files_given (files ?a))"
    by (simp add: file_given_def files_given_def)
  from conflicting_arguments_raise [OF h c, of sample_py sample_context sample_world]
  show ?thesis
    by (simp add: sample_context_def sample_world_def default_args_def)
qed

text \<open>
  C1 as stated fails: with \<^verbatim>\<open>embed\<close> given and \<^verbatim>\<open>embeds=[]\<close> (both not \<^verbatim>\<open>None\<close>) \<^verbatim>\<open>send\<close>
  returns a message, and with \<^verbatim>\<open>hidden=True\<close> a call with an embed and a list of embeds
  returns the response of the hidden post.
\<close>

theorem conflicting_arguments_counterexample:
  "embed_arg (default_args\<lparr>embed_arg := Some rich_embed, embeds := Some (EmbedList [])\<rparr>) \<noteq> None
   \<and> embeds (default_args\<lparr>embed_arg := Some rich_embed, embeds := Some (EmbedList [])\<rparr>) \<noteq> None
   \<and> fst (send sample_py sample_context sample_world
             (default_args\<lparr>embed_arg := Some rich_embed, embeds := Some (EmbedList [])\<rparr>))
       = Inr (Message \<lparr> sm_state = 0, sm_data = JObj [(''id'', JStr ''100'')],
                        sm_channel = ChannelObj (TextChannel 2),
                        sm_interaction_token = JStr ''tok'' \<rparr>)
   \<and> fst (send sample_py sample_context sample_world
             (default_args\<lparr>embed_arg := Some rich_embed, embeds := Some (EmbedList [rich_embed]),
                           hidden := True\<rparr>))
       = Inr (Response (JObj [(''id'', JStr ''100'')]))"
  by (simp add: send_defs sample_defs)




text \<open>
  C3. The response-tracking state of a context is the boolean \<open>sent\<close>: a context that
  the constructor returns has it false, \<^verbatim>\<open>respond\<close> leaves it true, and \<^verbatim>\<open>send\<close> never
  sets it back to false (\<^verbatim>\<open>send_hidden\<close> returns no context: it changes none).
\<close>

theorem sent_flag:
  "(init py js discord = Inr ctx0 \<longrightarrow> \<not> sent ctx0)
   \<and> sent (fst (respond py ctx w eat))
   \<and> (sent ctx \<longrightarrow> sent (fst (snd (send py ctx w a))))"
proof -
  have a: "init py js discord = Inr ctx0 \<longrightarrow> \<not> sent ctx0"
    by (auto simp: init_def ebind_def Let_def split: sum.splits option.splits)
  have b: "sent (fst (respond py ctx w eat))"
    by (simp add: respond_ctx)
  have c: "sent ctx \<longrightarrow> sent (fst (snd (send py ctx w a)))"
    by (simp add: send_ctx ensure_responded_sent)
  from a b c show ?thesis by blast
qed

text \<open>C3 at the sample context, before and after it has responded.\<close>

theorem sent_flag_witness:
  "init sample_py sample_payload sample_client = Inr sample_context
   \<and> \<not> sent sample_context
   \<and> sent (fst (respond sample_py (sample_context\<lparr>sent := True\<rparr>) sample_world True))
   \<and> sent (sample_context\<lparr>sent := True\<rparr>)
   \<and> sent (fst (snd (send sample_py (sample_context\<lparr>sent := True\<rparr>) sample_world default_args)))"
  using sent_flag [where py = sample_py and js = sample_payload and discord = sample_client
                     and ?ctx0.0 = sample_context and ctx = "sample_context\<lparr>sent := True\<rparr>"
                     and w = sample_world and eat = True and a = default_args]
        sample_init
  by simp

text \<open>
  C4, as amended. In a call of \<^verbatim>\<open>send\<close> with \<^verbatim>\<open>hidden\<close> true whose content is not an
  integer from 2 to 5, the body posted (after the acknowledgement, when \<open>sent\<close> was
  false) is exactly \<^verbatim>\<open>{"content": content, "flags": 64}\<close>, whatever the other arguments
  are; the call logs the warning about embeds exactly when \<^verbatim>\<open>embeds\<close> or \<^verbatim>\<open>embed\<close> is
  true in a condition, and returns the response of the post.
\<close>

theorem hidden_body:
  assumes "hidden a" and "\<not> legacy_content (content a)"
  shows "posts (snd (snd (send py ctx w a))) =
           posts w
           @ (if sent ctx then []
              else [\<lparr> body = JObj [(''type'', JInt 5)], req_wait = False,
                      req_interaction_id = interaction_id ctx, req_token = token ctx,
                      initial = True, req_files = None \<rparr>])
           @ [\<lparr> body = JObj [(''content'', content a), (''flags'', JInt 64)], req_wait = False,
                req_interaction_id = interaction_id ctx, req_token = token ctx,
                initial = False, req_files = None \<rparr>]
       \<and> warnings (snd (snd (send py ctx w a))) =
           warnings w
           @ (if sent ctx then []
              else [''At command `'' @ py_format py (name ctx) @
                    ''`: It is highly recommended to call `.respond()` first!''])
           @ (if embeds_given (embeds a) \<or> embed_given (embed_arg a)
              then [''Embed is not supported for `hidden`!''] else [])
       \<and> (\<exists>resp. fst (send py ctx w a) = Inr (Response resp))"
proof -
  have p: "posts (snd (snd (send py ctx w a))) =
           posts w
           @ (if sent ctx then []
              else [\<lparr> body = JObj [(''type'', JInt 5)], req_wait = False,
                      req_interaction_id = interaction_id ctx, req_token = token ctx,
                      initial = True, req_files = None \<rparr>])
           @ [\<lparr> body = JObj [(''content'', content a), (''flags'', JInt 64)], req_wait = False,
                req_interaction_id = interaction_id ctx, req_token = token ctx,
                initial = False, req_files = None \<rparr>]"
    using assms by (simp add: send_posts ack_request_def hidden_request_def)
  have r: "\<exists>resp. fst (send py ctx w a) = Inr (Response resp)"
    using assms by (simp add: send_def case_prod_beta Let_def)
  from p r send_warnings_hidden [OF assms] show ?thesis by blast
qed

text \<open>C4, the amended statement at a hidden call with an embed and \<^verbatim>\<open>tts\<close>.\<close>

theorem hidden_body_witness:
  "posts (snd (snd (send sample_py sample_context sample_world
                      (default_args\<lparr>content := JStr ''hi'', embed_arg := Some rich_embed,
                                    tts := True, hidden := True\<rparr>)))) =
     [\<lparr> body = JObj [(''type'', JInt 5)], req_wait = False,
        req_interaction_id = JStr ''42'', req_token = JStr ''tok'',
        initial = True, req_files = None \<rparr>,
      \<lparr> body = JObj [(''content'', JStr ''hi''), (''flags'', JInt 64)], req_wait = False,
        req_interaction_id = JStr ''42'', req_token = JStr ''tok'',
        initial = False, req_files = None \<rparr>]
   \<and> warnings (snd (snd (send sample_py sample_context sample_world
                      (default_args\<lparr>content := JStr ''hi'', embed_arg := Some rich_embed,
                                    tts := True, hidden := True\<rparr>)))) =
     [''At command `ping`: It is highly recommended to call `.respond()` first!'',
      ''Embed is not supported for `hidden`!'']"
proof -
  have h: "hidden (default_args\<lparr>content := JStr ''hi'', embed_arg := Some rich_embed,
                                tts := True, hidden := True\<rparr>)"
    by simp
  have l: "\<not> legacy_content (content (default_args\<lparr>content := JStr ''hi'',
              embed_arg := Some rich_embed, tts := True, hidden := True\<rparr>))"
    by simp
  from hidden_body [OF h l, of sample_py sample_context sample_world] show ?thesis
    by (simp add: sample_defs embed_given_def embeds_given_def)
qed

text \<open>
  C4 as stated fails: \<^verbatim>\<open>send(3, hidden=True)\<close> raises \<open>IncorrectFormat\<close> at the check of
  the content and posts nothing.
\<close>

theorem hidden_body_counterexample:
  "hidden (default_args\<lparr>content := JInt 3, hidden := True\<rparr>)
   \<and> fst (send sample_py sample_context sample_world
             (default_args\<lparr>content := JInt 3, hidden := True\<rparr>)) =
       Inl (IncorrectFormat
         ''`.send` Method is rewritten at Release 1.0.9. Please read the docs and fix all the usages.'')
   \<and> posts (snd (snd (send sample_py sample_context sample_world
                        (default_args\<lparr>content := JInt 3, hidden := True\<rparr>)))) = []"
  by (simp add: send_def sample_defs)

text \<open>
  C5. The constructor accepts a payload exactly when it can read \<^verbatim>\<open>token\<close>, \<^verbatim>\<open>data\<close> with
  its \<^verbatim>\<open>name\<close> and \<^verbatim>\<open>id\<close>, \<^verbatim>\<open>id\<close>, \<^verbatim>\<open>guild_id\<close>, \<^verbatim>\<open>member\<close> with its \<^verbatim>\<open>user\<close> and the \<^verbatim>\<open>id\<close>
  of that, and \<^verbatim>\<open>channel_id\<close>, and \<^verbatim>\<open>int\<close> accepts the three ids. The context it returns
  then holds these values: \<open>name\<close>, \<open>command\<close> and \<open>invoked_with\<close> are the name,
  \<open>interaction_id\<close> and \<open>command_id\<close> the two ids, the token is stored, \<open>message\<close> is
  \<^verbatim>\<open>None\<close>, \<open>sent\<close> is false, and \<open>guild\<close>, \<open>author\<close> and \<open>channel\<close> are the guild that
  the client knows by \<^verbatim>\<open>int(_json["guild_id"])\<close>, the member of it known by
  \<^verbatim>\<open>int(_json["member"]["user"]["id"])\<close> and the channel of it known by
  \<^verbatim>\<open>int(_json["channel_id"])\<close>, each replaced by that same integer when it is not known.
\<close>

theorem init_fields:
  "init py js discord = Inr ctx \<longleftrightarrow>
     (\<exists>tok d nm iid cid gj gid mj uj ij uid cj chid.
        getitem js ''token'' = Inr tok
      \<and> getitem js ''data'' = Inr d
      \<and> getitem d ''name'' = Inr nm
      \<and> getitem js ''id'' = Inr iid
      \<and> getitem d ''id'' = Inr cid
      \<and> getitem js ''guild_id'' = Inr gj \<and> py_int py gj = Inr gid
      \<and> getitem js ''member'' = Inr mj \<and> getitem mj ''user'' = Inr uj
      \<and> getitem uj ''id'' = Inr ij \<and> py_int py ij = Inr uid
      \<and> getitem js ''channel_id'' = Inr cj \<and> py_int py cj = Inr chid
      \<and> ctx =
          \<lparr> token = tok, message = None,
            name = nm, command = nm, invoked_with = nm,
            subcommand_name = JNull, invoked_subcommand = JNull, subcommand_passed = JNull,
            subcommand_group = JNull, invoked_subcommand_group = JNull,
            subcommand_group_passed = JNull,
            interaction_id = iid, command_id = cid, bot_client = discord, sent = False,
            guild = (case map_of (guilds discord) gid of Some g \<Rightarrow> Obj g | None \<Rightarrow> IntId gid),
            author = (case map_of (guilds discord) gid of
                        None \<Rightarrow> IntId uid
                      | Some g \<Rightarrow> (case map_of (members g) uid of
                                    Some m \<Rightarrow> Obj m | None \<Rightarrow> IntId uid)),
            channel = (case map_of (guilds discord) gid of
                         None \<Rightarrow> IntId chid
                       | Some g \<Rightarrow> (case map_of (channels g) chid of
                                     Some c \<Rightarrow> Obj c | None \<Rightarrow> IntId chid)) \<rparr>)"
  (is "?l \<longleftrightarrow> ?r")
proof
  assume a: ?l
  from a obtain tok where tok: "getitem js ''token'' = Inr tok"
    by (auto simp: init_def ebind_def split: sum.splits)
  from a obtain d where d: "getitem js ''data'' = Inr d"
    by (auto simp: init_def ebind_def split: sum.splits)
  from a tok d obtain nm where nm: "getitem d ''name'' = Inr nm"
    by (auto simp: init_def ebind_def split: sum.splits)
  from a tok d nm obtain iid where iid: "getitem js ''id'' = Inr iid"
    by (auto simp: init_def ebind_def split: sum.splits)
  from a tok d nm iid obtain cid where cid: "getitem d ''id'' = Inr cid"
    by (auto simp: init_def ebind_def split: sum.splits)
  from a tok d nm iid cid obtain gj where gj: "getitem js ''guild_id'' = Inr gj"
    by (auto simp: init_def ebind_def guild_id_of_def split: sum.splits)
  from a tok d nm iid cid gj obtain gid where gid: "py_int py gj = Inr gid"
    by (auto simp: init_def ebind_def guild_id_of_def split: sum.splits)
  note base = tok d nm iid cid gj gid
  from a base obtain mj where mj: "getitem js ''member'' = Inr mj"
    by (auto simp: init_def ebind_def guild_id_of_def user_id_of_def Let_def
          split: sum.splits option.splits)
  from a base mj obtain uj where uj: "getitem mj ''user'' = Inr uj"
    by (auto simp: init_def ebind_def guild_id_of_def user_id_of_def Let_def
          split: sum.splits option.splits)
  from a base mj uj obtain ij where ij: "getitem uj ''id'' = Inr ij"
    by (auto simp: init_def ebind_def guild_id_of_def user_id_of_def Let_def
          split: sum.splits option.splits)
  from a base mj uj ij obtain uid where uid: "py_int py ij = Inr uid"
    by (auto simp: init_def ebind_def guild_id_of_def user_id_of_def Let_def
          split: sum.splits option.splits)
  note user = mj uj ij uid
  from a base user obtain cj where cj: "getitem js ''channel_id'' = Inr cj"
    by (auto simp: init_def ebind_def guild_id_of_def user_id_of_def channel_id_of_def Let_def
          split: sum.splits option.splits)
  from a base user cj obtain chid where chid: "py_int py cj = Inr chid"
    by (auto simp: init_def ebind_def guild_id_of_def user_id_of_def channel_id_of_def Let_def
          split: sum.splits option.splits)
  from a base user cj chid show ?r
    by (auto simp: init_def ebind_def guild_id_of_def user_id_of_def channel_id_of_def
          get_guild_def get_member_def get_channel_def Let_def split: option.splits)
next
  assume ?r
  then show ?l
    by (elim exE conjE)
       (simp add: init_def ebind_def guild_id_of_def user_id_of_def channel_id_of_def
          get_guild_def get_member_def get_channel_def Let_def split: option.splits)
qed

text \<open>
  C5 at three payloads: one whose guild, member and channel are all known, one from a
  guild that the client does not know, and one from the known guild by a member and in a
  channel that it does not know.
\<close>

theorem init_fields_witness:
  "init sample_py sample_payload sample_client = Inr sample_context
   \<and> guild sample_context = Obj sample_guild
   \<and> author sample_context = Obj (Member 3)
   \<and> channel sample_context = Obj (TextChannel 2)
   \<and> init sample_py stranger_payload sample_client =
       Inr (sample_context\<lparr>guild := IntId 9, author := IntId 3, channel := IntId 2\<rparr>)
   \<and> init sample_py visitor_payload sample_client =
       Inr (sample_context\<lparr>author := IntId 5, channel := IntId 8\<rparr>)"
proof -
  have a: "init sample_py sample_payload sample_client = Inr sample_context"
    by (rule init_fields [THEN iffD2]) (simp add: init_eval)
  have b: "init sample_py stranger_payload sample_client =
             Inr (sample_context\<lparr>guild := IntId 9, author := IntId 3, channel := IntId 2\<rparr>)"
    by (rule init_fields [THEN iffD2]) (simp add: init_eval)
  have c: "init sample_py visitor_payload sample_client =
             Inr (sample_context\<lparr>author := IntId 5, channel := IntId 8\<rparr>)"
    by (rule init_fields [THEN iffD2]) (simp add: init_eval)
  have d: "guild sample_context = Obj sample_guild \<and> author sample_context = Obj (Member 3)
           \<and> channel sample_context = Obj (TextChannel 2)"
    by (simp add: sample_context_def)
  from a b c d show ?thesis by blast
qed

text \<open>
  C6. With \<^verbatim>\<open>eat\<close> false, \<^verbatim>\<open>respond\<close> calls \<^verbatim>\<open>wait_for("message", timeout=3)\<close> once; with
  \<^verbatim>\<open>eat\<close> true it waits for nothing. The check it hands over compares \<^verbatim>\<open>message.type\<close> with
  the integer 20, and a member of the enumeration \<^verbatim>\<open>MessageType\<close> of the SDK, which is what
  every message dispatched by the gateway carries, is equal to no integer. So whenever
  the messages dispatched before the timeout all come from the gateway, none passes the
  check and \<open>message\<close> stays as it was, also when the message that invoked the command
  is among them.
\<close>

theorem respond_misses_gateway_message:
  assumes "\<forall>m \<in> set (case windows w of [] \<Rightarrow> [] | ms # rest \<Rightarrow> ms). \<exists>v. msg_type m = MessageType v"
  shows "message (fst (respond py ctx w eat)) = message ctx
       \<and> waits (snd (respond py ctx w eat)) = waits w @ (if eat then [] else [(''message'', 3)])"
proof -
  have "find (check py ctx) ms = None"
    if "\<forall>m \<in> set ms. \<exists>v. msg_type m = MessageType v" for ms
    using that by (auto simp: find_None_iff dest: check_rejects_members)
  with assms show ?thesis
    by (simp add: respond_ctx respond_world split: list.splits)
qed

text \<open>
  C6 at the sample context: the message dispatched is by the author of the command, in
  its channel, of type \<^verbatim>\<open>MessageType.application_command\<close> (value 20), and its content
  starts with \<^verbatim>\<open></ping:7>\<close>; \<^verbatim>\<open>respond()\<close> waits for it and leaves \<open>message\<close> at \<^verbatim>\<open>None\<close>.
\<close>

theorem respond_misses_gateway_message_witness:
  "author sample_context = Obj (Member 3)
   \<and> channel sample_context = Obj (TextChannel 2)
   \<and> name sample_context = JStr ''ping''
   \<and> command_id sample_context = JStr ''7''
   \<and> message sample_context = None
   \<and> windows sample_world = [sample_message] # []
   \<and> msg_author sample_message = Member 3
   \<and> msg_channel sample_message = TextChannel 2
   \<and> msg_type sample_message = MessageType 20
   \<and> prefix ''</ping:7>'' (msg_content sample_message)
   \<and> waits (snd (respond sample_py sample_context sample_world False)) = [(''message'', 3)]
   \<and> message (fst (respond sample_py sample_context sample_world False)) = None"
  using respond_misses_gateway_message [of sample_world sample_py sample_context False]
  by (simp add: sample_context_def sample_world_def sample_message_def)



text \<open>
  C8, as amended. In a call of \<^verbatim>\<open>send\<close> with \<^verbatim>\<open>hidden\<close> false, a content that is not an
  integer from 2 to 5, and \<^verbatim>\<open>embeds\<close> given: when \<^verbatim>\<open>embeds\<close> is true in a condition and is
  not a list or has more than 10 elements, \<^verbatim>\<open>send\<close> raises \<open>IncorrectFormat\<close>; otherwise
  the embeds are accepted, that is, \<^verbatim>\<open>send\<close> raises \<open>IncorrectFormat\<close> exactly when \<^verbatim>\<open>embed\<close>
  and \<^verbatim>\<open>embeds\<close> are both true or \<^verbatim>\<open>file\<close> and \<^verbatim>\<open>files\<close> are, and whenever it raises no
  \<open>IncorrectFormat\<close> it posts the body with the embeds given.
\<close>

theorem embeds_validation:
  assumes "\<not> hidden a" and "\<not> legacy_content (content a)" and "embeds a = Some v"
  shows "(embeds_bool v \<and> (case v of NotAList _ \<Rightarrow> True | EmbedList xs \<Rightarrow> length xs > 10)
            \<longrightarrow> (\<exists>msg. fst (send py ctx w a) = Inl (IncorrectFormat msg)))
       \<and> (\<not> (embeds_bool v \<and> (case v of NotAList _ \<Rightarrow> True | EmbedList xs \<Rightarrow> length xs > 10))
            \<longrightarrow> ((\<exists>msg. fst (send py ctx w a) = Inl (IncorrectFormat msg)) \<longleftrightarrow>
                     (embed_given (embed_arg a) \<and> embeds_bool v)
                   \<or> (file_given (file a) \<and> files_given (files a))))
       \<and> (\<not> (\<exists>msg. fst (send py ctx w a) = Inl (IncorrectFormat msg))
            \<longrightarrow> (\<exists>req. posts (snd (snd (send py ctx w a))) =
                         posts w
                         @ (if sent ctx then []
                            else [\<lparr> body = JObj [(''type'', JInt 5)], req_wait = False,
                                    req_interaction_id = interaction_id ctx,
                                    req_token = token ctx,
                                    initial = True, req_files = None \<rparr>])
                         @ [req]
                     \<and> body req =
                           JObj [(''content'', content a),
                                 (''tts'', JBool (tts a)),
                                 (''embeds'', JList (map to_dict (given_embeds a))),
                                 (''allowed_mentions'',
                                    (case allowed_mentions a of
                                       Some m \<Rightarrow> am_to_dict m
                                     | None \<Rightarrow> (case bot_allowed_mentions (bot_client ctx) of
                                                  Some d \<Rightarrow> am_to_dict d
                                                | None \<Rightarrow> JObj [])))]))"
proof -
  have x: "(embeds_bool v \<and> (case v of NotAList _ \<Rightarrow> True | EmbedList xs \<Rightarrow> length xs > 10)
            \<longrightarrow> (\<exists>msg. fst (send py ctx w a) = Inl (IncorrectFormat msg)))
       \<and> (\<not> (embeds_bool v \<and> (case v of NotAList _ \<Rightarrow> True | EmbedList xs \<Rightarrow> length xs > 10))
            \<longrightarrow> ((\<exists>msg. fst (send py ctx w a) = Inl (IncorrectFormat msg)) \<longleftrightarrow>
                     (embed_given (embed_arg a) \<and> embeds_bool v)
                   \<or> (file_given (file a) \<and> files_given (files a))))"
    using send_incorrect_format [OF assms(1,2), of py ctx w] validate_embeds [OF assms(3)]
    by blast
  have y: "\<exists>req. posts (snd (snd (send py ctx w a))) =
                         posts w
                         @ (if sent ctx then []
                            else [\<lparr> body = JObj [(''type'', JInt 5)], req_wait = False,
                                    req_interaction_id = interaction_id ctx,
                                    req_token = token ctx,
                                    initial = True, req_files = None \<rparr>])
                         @ [req]
                     \<and> body req =
                           JObj [(''content'', content a),
                                 (''tts'', JBool (tts a)),
                                 (''embeds'', JList (map to_dict (given_embeds a))),
                                 (''allowed_mentions'',
                                    (case allowed_mentions a of
                                       Some m \<Rightarrow> am_to_dict m
                                     | None \<Rightarrow> (case bot_allowed_mentions (bot_client ctx) of
                                                  Some d \<Rightarrow> am_to_dict d
                                                | None \<Rightarrow> JObj [])))]"
    if n: "\<not> (\<exists>msg. fst (send py ctx w a) = Inl (IncorrectFormat msg))"
  proof -
    from n send_incorrect_format [OF assms(1,2), of py ctx w]
    obtain es fs where v: "validate a = Inr (es, fs)" by auto
    have p: "posts (snd (snd (send py ctx w a))) =
               posts w @ (if sent ctx then [] else [ack_request ctx False])
                       @ [followup_request ctx a es fs]"
      using assms(1,2) v by (simp add: send_posts)
    have b: "body (followup_request ctx a es fs) =
               JObj [(''content'', content a), (''tts'', JBool (tts a)),
                     (''embeds'', JList (map to_dict (given_embeds a))),
                     (''allowed_mentions'',
                        (case allowed_mentions a of
                           Some m \<Rightarrow> am_to_dict m
                         | None \<Rightarrow> (case bot_allowed_mentions (bot_client ctx) of
                                      Some d \<Rightarrow> am_to_dict d
                                    | None \<Rightarrow> JObj [])))]"
      by (simp add: followup_request_def send_base_def mentions_dict_def
            validate_embeds_json [OF v])
    from p b show ?thesis by (auto simp: ack_request_def)
  qed
  from x y show ?thesis by blast
qed

text \<open>
  C8, the amended statement at a true value that is not a list, at 11 and at 10 embeds,
  at 10 embeds with \<^verbatim>\<open>file\<close> and \<^verbatim>\<open>files\<close>, and at two embeds from a channel that is not a
  \<^verbatim>\<open>TextChannel\<close>: the embeds are posted, then the construction of the result raises
  \<open>TypeError\<close>.
\<close>

theorem embeds_validation_witness:
  "(\<exists>msg. fst (send sample_py sample_context sample_world
                  (default_args\<lparr>embeds := Some (NotAList True)\<rparr>)) = Inl (IncorrectFormat msg))
   \<and> (\<exists>msg. fst (send sample_py sample_context sample_world
                  (default_args\<lparr>embeds := Some (EmbedList (replicate 11 rich_embed))\<rparr>))
              = Inl (IncorrectFormat msg))
   \<and> \<not> (\<exists>msg. fst (send sample_py sample_context sample_world
                  (default_args\<lparr>embeds := Some (EmbedList (replicate 10 rich_embed))\<rparr>))
              = Inl (IncorrectFormat msg))
   \<and> (\<exists>msg. fst (send sample_py sample_context sample_world
                  (default_args\<lparr>embeds := Some (EmbedList (replicate 10 rich_embed)),
                                 file := Some (File ''a.png''),
                                 files := Some [File ''b.png'']\<rparr>))
              = Inl (IncorrectFormat msg))
   \<and> fst (send sample_py voice_context sample_world
             (default_args\<lparr>embeds := Some (EmbedList [rich_embed, empty_embed])\<rparr>)) = Inl TypeError
   \<and> (\<exists>req. posts (snd (snd (send sample_py voice_context sample_world
                 (default_args\<lparr>embeds := Some (EmbedList [rich_embed, empty_embed])\<rparr>)))) =
               [\<lparr> body = JObj [(''type'', JInt 5)], req_wait = False,
                  req_interaction_id = JStr ''42'', req_token = JStr ''tok'',
                  initial = True, req_files = None \<rparr>, req]
           \<and> body req =
               JObj [(''content'', JStr []), (''tts'', JBool False),
                     (''embeds'', JList [JObj [(''title'', JStr ''t''), (''type'', JStr ''rich'')],
                                         JObj [(''type'', JStr ''rich'')]]),
                     (''allowed_mentions'', JObj [])])"
proof -
  have t: "fst (send sample_py voice_context sample_world
             (default_args\<lparr>embeds := Some (EmbedList [rich_embed, empty_embed])\<rparr>)) = Inl TypeError"
    by (simp add: send_defs sample_defs)
  have a: "\<exists>msg. fst (send sample_py sample_context sample_world
                  (default_args\<lparr>embeds := Some (NotAList True)\<rparr>)) = Inl (IncorrectFormat msg)"
    using embeds_validation [where py = sample_py and ctx = sample_context and w = sample_world
          and a = "default_args\<lparr>embeds := Some (NotAList True)\<rparr>" and v = "NotAList True"]
    by (simp add: default_args_def)
  have b: "\<exists>msg. fst (send sample_py sample_context sample_world
                  (default_args\<lparr>embeds := Some (EmbedList (replicate 11 rich_embed))\<rparr>))
              = Inl (IncorrectFormat msg)"
    using embeds_validation [where py = sample_py and ctx = sample_context and w = sample_world
          and a = "default_args\<lparr>embeds := Some (EmbedList (replicate 11 rich_embed))\<rparr>"
          and v = "EmbedList (replicate 11 rich_embed)"]
    by (simp add: default_args_def)
  have c: "\<not> (\<exists>msg. fst (send sample_py sample_context sample_world
                  (default_args\<lparr>embeds := Some (EmbedList (replicate 10 rich_embed))\<rparr>))
              = Inl (IncorrectFormat msg))"
    using embeds_validation [where py = sample_py and ctx = sample_context and w = sample_world
          and a = "default_args\<lparr>embeds := Some (EmbedList (replicate 10 rich_embed))\<rparr>"
          and v = "EmbedList (replicate 10 rich_embed)"]
    by (simp add: default_args_def embed_given_def file_given_def)
  have d: "\<exists>msg. fst (send sample_py sample_context sample_world
                  (default_args\<lparr>embeds := Some (EmbedList (replicate 10 rich_embed)),
                                 file := Some (File ''a.png''),
                                 files := Some [File ''b.png'']\<rparr>))
              = Inl (IncorrectFormat msg)"
    using embeds_validation [where py = sample_py and ctx = sample_context and w = sample_world
          and a = "default_args\<lparr>embeds := Some (EmbedList (replicate 10 rich_embed)),
                                 file := Some (File ''a.png''), files := Some [File ''b.png'']\<rparr>"
          and v = "EmbedList (replicate 10 rich_embed)"]
    by (simp add: default_args_def embed_given_def file_given_def files_given_def)
  have e: "\<exists>req. posts (snd (snd (send sample_py voice_context sample_world
                 (default_args\<lparr>embeds := Some (EmbedList [rich_embed, empty_embed])\<rparr>)))) =
               [\<lparr> body = JObj [(''type'', JInt 5)], req_wait = False,
                  req_interaction_id = JStr ''42'', req_token = JStr ''tok'',
                  initial = True, req_files = None \<rparr>, req]
           \<and> body req =
               JObj [(''content'', JStr []), (''tts'', JBool False),
                     (''embeds'', JList [JObj [(''title'', JStr ''t''), (''type'', JStr ''rich'')],
                                         JObj [(''type'', JStr ''rich'')]]),
                     (''allowed_mentions'', JObj [])]"
    using embeds_validation [where py = sample_py and ctx = voice_context and w = sample_world
          and a = "default_args\<lparr>embeds := Some (EmbedList [rich_embed, empty_embed])\<rparr>"
          and v = "EmbedList [rich_embed, empty_embed]"] t
    by (simp add: sample_defs given_embeds_def)
  from a b c d t e show ?thesis by blast
qed

text \<open>
  C8 as stated fails: \<^verbatim>\<open>send(embeds=())\<close>, a value that is not a list, raises nothing and
  returns a message.
\<close>

theorem embeds_validation_counterexample:
  "embeds (default_args\<lparr>embeds := Some (NotAList False)\<rparr>) = Some (NotAList False)
   \<and> \<not> hidden (default_args\<lparr>embeds := Some (NotAList False)\<rparr>)
   \<and> fst (send sample_py sample_context sample_world
             (default_args\<lparr>embeds := Some (NotAList False)\<rparr>))
       = Inr (Message \<lparr> sm_state = 0, sm_data = JObj [(''id'', JStr ''100'')],
                        sm_channel = ChannelObj (TextChannel 2),
                        sm_interaction_token = JStr ''tok'' \<rparr>)"
  by (simp add: send_defs sample_defs)

text \<open>
  C9, as amended. For every embed \<open>e\<close> that is true in a condition, \<^verbatim>\<open>send(embed=e)\<close> and
  \<^verbatim>\<open>send(embeds=[e])\<close> have the same outcome, context and world, hence post the same
  body; for every file \<open>f\<close>, so have \<^verbatim>\<open>send(file=f)\<close> and \<^verbatim>\<open>send(files=[f])\<close>, which hand the
  same files to the HTTP client.
\<close>

theorem singular_plural:
  assumes "embed_bool e"
  shows "send py ctx w (a\<lparr>embed_arg := Some e, embeds := None\<rparr>) =
         send py ctx w (a\<lparr>embed_arg := None, embeds := Some (EmbedList [e])\<rparr>)
       \<and> send py ctx w (a\<lparr>file := Some f, files := None\<rparr>) =
         send py ctx w (a\<lparr>file := None, files := Some [f]\<rparr>)"
proof -
  have ce: "chosen_embeds (a\<lparr>embed_arg := Some e, embeds := None\<rparr>) =
            chosen_embeds (a\<lparr>embed_arg := None, embeds := Some (EmbedList [e])\<rparr>)"
    using assms by (simp add: chosen_embeds_def)
  have ve: "validate (a\<lparr>embed_arg := Some e, embeds := None\<rparr>) =
            validate (a\<lparr>embed_arg := None, embeds := Some (EmbedList [e])\<rparr>)"
    using assms
    by (simp add: validate_def ce chosen_files_embed_args embed_given_def embeds_given_def
          Let_def split: option.splits)
  have cf: "chosen_files (a\<lparr>file := Some f, files := None\<rparr>) =
            chosen_files (a\<lparr>file := None, files := Some [f]\<rparr>)"
    by (simp add: chosen_files_def)
  have vf: "validate (a\<lparr>file := Some f, files := None\<rparr>) =
            validate (a\<lparr>file := None, files := Some [f]\<rparr>)"
    by (simp add: validate_def cf chosen_embeds_file_args file_given_def files_given_def
          Let_def split: option.splits)
  have e: "send py ctx w (a\<lparr>embed_arg := Some e, embeds := None\<rparr>) =
           send py ctx w (a\<lparr>embed_arg := None, embeds := Some (EmbedList [e])\<rparr>)"
    using assms
    by (simp add: send_def ve deliver_embed_args embed_given_def embeds_given_def
          split: prod.splits sum.splits)
  have f: "send py ctx w (a\<lparr>file := Some f, files := None\<rparr>) =
           send py ctx w (a\<lparr>file := None, files := Some [f]\<rparr>)"
    by (simp add: send_def vf deliver_file_args split: prod.splits sum.splits)
  from e f show ?thesis by blast
qed

text \<open>C9, the amended statement at the sample embed and a file.\<close>

theorem singular_plural_witness:
  "embed_bool rich_embed
   \<and> send sample_py sample_context sample_world
        (default_args\<lparr>embed_arg := Some rich_embed, embeds := None\<rparr>) =
     send sample_py sample_context sample_world
        (default_args\<lparr>embed_arg := None, embeds := Some (EmbedList [rich_embed])\<rparr>)
   \<and> send sample_py sample_context sample_world
        (default_args\<lparr>file := Some (File ''a.txt''), files := None\<rparr>) =
     send sample_py sample_context sample_world
        (default_args\<lparr>file := None, files := Some [File ''a.txt'']\<rparr>)"
proof -
  have h: "embed_bool rich_embed" by (simp add: rich_embed_def)
  from h singular_plural [OF h, of sample_py sample_context sample_world default_args "File ''a.txt''"]
  show ?thesis by simp
qed

text \<open>
  C9 as stated fails: for the embed \<^verbatim>\<open>Embed()\<close>, false in a condition, \<^verbatim>\<open>send(embed=e)\<close> posts
  \<^verbatim>\<open>"embeds": []\<close> and \<^verbatim>\<open>send(embeds=[e])\<close> posts the \<^verbatim>\<open>to_dict()\<close> of the embed.
\<close>

theorem singular_plural_counterexample:
  "body (last (posts (snd (snd (send sample_py sample_context sample_world
                                  (default_args\<lparr>embed_arg := Some empty_embed\<rparr>))))))
     = JObj [(''content'', JStr []), (''tts'', JBool False), (''embeds'', JList []),
             (''allowed_mentions'', JObj [])]
   \<and> body (last (posts (snd (snd (send sample_py sample_context sample_world
                                  (default_args\<lparr>embeds := Some (EmbedList [empty_embed])\<rparr>))))))
     = JObj [(''content'', JStr []), (''tts'', JBool False),
             (''embeds'', JList [JObj [(''type'', JStr ''rich'')]]),
             (''allowed_mentions'', JObj [])]"
  by (simp add: send_defs sample_defs)

text \<open>
  C10, as amended. A call of \<^verbatim>\<open>send\<close> with \<^verbatim>\<open>hidden\<close> false and a content that is not an
  integer from 2 to 5, entered while \<open>sent\<close> is false, first posts the acknowledgement
  of \<^verbatim>\<open>respond()\<close> and sets \<open>sent\<close>; when it then raises \<open>IncorrectFormat\<close>, \<open>sent\<close> stays true
  and the acknowledgement is the only request posted.
\<close>

theorem respond_before_validation:
  assumes "\<not> hidden a" and "\<not> sent ctx" and "\<not> legacy_content (content a)"
  shows "sent (fst (snd (send py ctx w a)))
       \<and> (\<exists>rest. posts (snd (snd (send py ctx w a))) =
             posts w
             @ [\<lparr> body = JObj [(''type'', JInt 5)], req_wait = False,
                   req_interaction_id = interaction_id ctx, req_token = token ctx,
                   initial = True, req_files = None \<rparr>]
             @ rest)
       \<and> (\<forall>msg. fst (send py ctx w a) = Inl (IncorrectFormat msg) \<longrightarrow>
             posts (snd (snd (send py ctx w a))) =
               posts w
               @ [\<lparr> body = JObj [(''type'', JInt 5)], req_wait = False,
                     req_interaction_id = interaction_id ctx, req_token = token ctx,
                     initial = True, req_files = None \<rparr>])"
proof -
  have s: "sent (fst (snd (send py ctx w a)))"
    using assms by (simp add: send_ctx ensure_responded_sent)
  have p: "\<exists>rest. posts (snd (snd (send py ctx w a))) =
             posts w
             @ [\<lparr> body = JObj [(''type'', JInt 5)], req_wait = False,
                   req_interaction_id = interaction_id ctx, req_token = token ctx,
                   initial = True, req_files = None \<rparr>]
             @ rest"
    using assms by (simp add: send_posts ack_request_def)
  have r: "\<forall>msg. fst (send py ctx w a) = Inl (IncorrectFormat msg) \<longrightarrow>
             posts (snd (snd (send py ctx w a))) =
               posts w
               @ [\<lparr> body = JObj [(''type'', JInt 5)], req_wait = False,
                     req_interaction_id = interaction_id ctx, req_token = token ctx,
                     initial = True, req_files = None \<rparr>]"
    using assms
    by (auto simp: send_posts send_raises ack_request_def dest: channel_argument_error)
  from s p r show ?thesis by blast
qed

text \<open>C10, the amended statement at a call with an embed and a list of embeds.\<close>

theorem respond_before_validation_witness:
  "fst (send sample_py sample_context sample_world
          (default_args\<lparr>embed_arg := Some rich_embed, embeds := Some (EmbedList [rich_embed])\<rparr>))
     = Inl (IncorrectFormat ''You can't use both `embed` and `embeds`!'')
   \<and> sent (fst (snd (send sample_py sample_context sample_world
          (default_args\<lparr>embed_arg := Some rich_embed, embeds := Some (EmbedList [rich_embed])\<rparr>))))
   \<and> posts (snd (snd (send sample_py sample_context sample_world
          (default_args\<lparr>embed_arg := Some rich_embed, embeds := Some (EmbedList [rich_embed])\<rparr>))))
     = [\<lparr> body = JObj [(''type'', JInt 5)], req_wait = False,
          req_interaction_id = JStr ''42'', req_token = JStr ''tok'',
          initial = True, req_files = None \<rparr>]"
proof -
  let ?a = "default_args\<lparr>embed_arg := Some rich_embed, embeds := Some (EmbedList [rich_embed])\<rparr>"
  have h: "\<not> hidden ?a" by (simp add: default_args_def)
  have s: "\<not> sent sample_context" by (simp add: sample_context_def)
  have l: "\<not> legacy_content (content ?a)" by (simp add: default_args_def)
  have r: "fst (send sample_py sample_context sample_world ?a)
             = Inl (IncorrectFormat ''You can't use both `embed` and `embeds`!'')"
    by (simp add: send_defs sample_defs)
  from respond_before_validation [OF h s l, of sample_py sample_world] r show ?thesis
    by (simp add: sample_context_def sample_world_def)
qed

text \<open>
  C10 as stated fails: \<^verbatim>\<open>send(3, embed=e, embeds=[e])\<close>, entered while \<open>sent\<close> is false,
  raises \<open>IncorrectFormat\<close> at the check of the content, before \<^verbatim>\<open>respond()\<close>: nothing is
  posted and \<open>sent\<close> stays false.
\<close>

theorem respond_before_validation_counterexample:
  "\<not> hidden (default_args\<lparr>content := JInt 3, embed_arg := Some rich_embed,
                          embeds := Some (EmbedList [rich_embed])\<rparr>)
   \<and> \<not> sent sample_context
   \<and> fst (send sample_py sample_context sample_world
             (default_args\<lparr>content := JInt 3, embed_arg := Some rich_embed,
                           embeds := Some (EmbedList [rich_embed])\<rparr>)) =
       Inl (IncorrectFormat
         ''`.send` Method is rewritten at Release 1.0.9. Please read the docs and fix all the usages.'')
   \<and> \<not> sent (fst (snd (send sample_py sample_context sample_world
             (default_args\<lparr>content := JInt 3, embed_arg := Some rich_embed,
                           embeds := Some (EmbedList [rich_embed])\<rparr>))))
   \<and> posts (snd (snd (send sample_py sample_context sample_world
             (default_args\<lparr>content := JInt 3, embed_arg := Some rich_embed,
                           embeds := Some (EmbedList [rich_embed])\<rparr>)))) = []"
  by (simp add: send_def sample_defs)

end
